theory Spec2Isabelle
  imports Complex_Main
begin

section \<open>JavaScript values\<close>

text \<open>
  A JavaScript number as the code compares it: the comparisons \<open><\<close>, \<open>>\<close> and
  \<open>===\<close> are exact on doubles, so a finite number is its rational value; \<open>NaN\<close> and
  the two infinities are kept apart (\<open>timeout(Infinity)\<close> is a call users make).
\<close>

datatype jsnum = NaN | NegInf | Fin rat | PosInf

fun js_lt :: "jsnum \<Rightarrow> jsnum \<Rightarrow> bool" where
  "js_lt NaN _ = False"
| "js_lt _ NaN = False"
| "js_lt PosInf _ = False"
| "js_lt _ NegInf = False"
| "js_lt NegInf _ = True"
| "js_lt _ PosInf = True"
| "js_lt (Fin a) (Fin b) = (a < b)"

definition js_gt :: "jsnum \<Rightarrow> jsnum \<Rightarrow> bool" where
  "js_gt a b = js_lt b a"

text \<open>Strict equality \<open>===\<close> on numbers: \<open>NaN\<close> equals nothing.\<close>

definition js_seq :: "jsnum \<Rightarrow> jsnum \<Rightarrow> bool" where
  "js_seq a b = (a \<noteq> NaN \<and> a = b)"

text \<open>
  The values user code hands to the framework (a thrown value, the argument of the
  completion callback, the return value of a body). Objects are told apart the way the
  code tells them apart: an \<open>Error\<close> (instance or \<open>[object Error]\<close>), a plain object
  (\<open>[object Object]\<close>), a promise (it has a \<open>then\<close> function), any other object.
\<close>

datatype jsval =
    JUndefined | JNull | JBool bool | JNum jsnum | JStr string
  | JError merror | JPlain nat | JThenable nat | JOther nat
and merror =
    MError (e_ctor: string) (e_message: string) (e_code: "string option")
      (e_props: "(string \<times> jsval) list")

fun truthy :: "jsval \<Rightarrow> bool" where
  "truthy JUndefined = False"
| "truthy JNull = False"
| "truthy (JBool b) = b"
| "truthy (JNum n) = (n \<noteq> NaN \<and> n \<noteq> Fin 0)"
| "truthy (JStr s) = (s \<noteq> [])"
| "truthy (JError e) = True"
| "truthy (JPlain k) = True"
| "truthy (JThenable k) = True"
| "truthy (JOther k) = True"

fun js_typeof :: "jsval \<Rightarrow> string" where
  "js_typeof JUndefined = ''undefined''"
| "js_typeof (JBool b) = ''boolean''"
| "js_typeof (JNum n) = ''number''"
| "js_typeof (JStr s) = ''string''"
| "js_typeof v = ''object''"

text \<open>\<open>err instanceof Error || toString.call(err) === '[object Error]'\<close>\<close>

fun is_error :: "jsval \<Rightarrow> bool" where
  "is_error (JError e) = True"
| "is_error v = False"

text \<open>\<open>Object.prototype.toString.call(err) === '[object Object]'\<close>\<close>

fun is_plain_object :: "jsval \<Rightarrow> bool" where
  "is_plain_object (JPlain k) = True"
| "is_plain_object v = False"

text \<open>\<open>result && typeof result.then === 'function'\<close> in \<open>callFn\<close>.\<close>

fun is_thenable :: "jsval \<Rightarrow> bool" where
  "is_thenable (JThenable k) = True"
| "is_thenable v = False"

text \<open>
  Modelled from the spec: \<open>utils.isPromise\<close> (utils.ts is not among the sources). The
  spec's words are "the user both returns a thenable AND calls the completion": the
  helper holds of the returned thenable.
\<close>

fun isPromise :: "jsval \<Rightarrow> bool" where
  "isPromise (JThenable k) = True"
| "isPromise v = False"

text \<open>
  Functions of the platform and of the \<open>ms\<close> package, which the code calls and this
  development takes as parameters: \<open>milliseconds\<close> (\<open>require('ms')\<close>), the text of a
  number in a template literal, the text of a value in a string concatenation,
  \<open>JSON.stringify\<close>, \<open>util.format('%s', v)\<close>, and the \<open>TypeError\<close> the engine throws
  when \<open>call\<close> is read of \<open>undefined\<close>.
\<close>

record lib =
  milliseconds :: "string \<Rightarrow> jsnum"
  num_text :: "jsnum \<Rightarrow> string"
  to_text :: "jsval \<Rightarrow> string"
  json_stringify :: "jsval \<Rightarrow> string"
  format_s :: "jsval \<Rightarrow> string"
  call_of_undefined :: jsval

text \<open>\<open>Array.prototype.join\<close> on strings.\<close>

fun join :: "string \<Rightarrow> string list \<Rightarrow> string" where
  "join sep [] = []"
| "join sep [x] = x"
| "join sep (x # y # ys) = x @ sep @ join sep (y # ys)"

section \<open>errors.ts\<close>

definition createUnsupportedError :: "string \<Rightarrow> merror" where
  "createUnsupportedError msg = MError ''Error'' msg (Some ''ERR_MOCHA_UNSUPPORTED'') []"

text \<open>\<open>err.actual = typeof argument\<close>: the argument's name is a string.\<close>

definition createInvalidArgumentTypeError :: "string \<Rightarrow> string \<Rightarrow> string \<Rightarrow> merror" where
  "createInvalidArgumentTypeError msg argument expected =
     MError ''TypeError'' msg (Some ''ERR_MOCHA_INVALID_ARG_TYPE'')
       [(''argument'', JStr argument), (''expected'', JStr expected),
        (''actual'', JStr (js_typeof (JStr argument)))]"

definition createMissingArgumentError :: "string \<Rightarrow> string \<Rightarrow> string \<Rightarrow> merror" where
  "createMissingArgumentError msg argument expected =
     createInvalidArgumentTypeError msg argument expected"

definition createInvalidExceptionError :: "string \<Rightarrow> jsval \<Rightarrow> merror" where
  "createInvalidExceptionError msg v =
     MError ''Error'' msg (Some ''ERR_MOCHA_INVALID_EXCEPTION'')
       [(''valueType'', JStr (js_typeof v)), (''value'', v)]"

definition createTimeoutError :: "string \<Rightarrow> jsnum \<Rightarrow> string \<Rightarrow> merror" where
  "createTimeoutError msg ms f =
     MError ''Error'' msg (Some ''ERR_MOCHA_TIMEOUT'')
       [(''timeout'', JNum ms), (''file'', JStr f)]"

section \<open>Suites, as a Runnable sees them\<close>

text \<open>
  suite.ts is not among the sources. A Runnable reads of its parent suite the
  \<open>pending\<close> and \<open>root\<close> flags, the id, \<open>isPending()\<close>, \<open>titlePath()\<close> and
  \<open>fullTitle()\<close>.
\<close>

datatype suite =
  Suite (s_title: string) (s_pending: bool) (s_root: bool) (s_id: string)
    (s_file: "string option") (s_parent: "suite option")

text \<open>
  Modelled from the spec: \<open>Suite.prototype.isPending\<close>. "A suite's own pending flag is
  inherited by descendants": a suite is pending when it or an ancestor is.
\<close>

fun suite_isPending :: "suite \<Rightarrow> bool" where
  "suite_isPending (Suite t p r i f par) =
     (p \<or> (case par of None \<Rightarrow> False | Some q \<Rightarrow> suite_isPending q))"

text \<open>
  Modelled from the spec: \<open>Suite.prototype.titlePath\<close> and \<open>fullTitle\<close>, the "full
  title path": the parent's title path followed by the suite's own title, the synthetic
  root suite contributing none; the full title joins the path with spaces, as
  \<open>Runnable.prototype.fullTitle\<close> does.
\<close>

fun suite_titlePath :: "suite \<Rightarrow> string list" where
  "suite_titlePath (Suite t p r i f par) =
     (case par of None \<Rightarrow> [] | Some q \<Rightarrow> suite_titlePath q) @ (if r then [] else [t])"

definition suite_fullTitle :: "suite \<Rightarrow> string" where
  "suite_fullTitle s = join '' '' (suite_titlePath s)"

section \<open>runnable.ts: the Runnable\<close>

text \<open>
  What a body function does when the Runnable calls it, as far as the Runnable can
  observe: while it runs it may invoke the completion callback it was given, it may call
  \<open>this.timeout(ms)\<close>, and time passes; it ends by returning a value, by throwing a
  value, or by calling \<open>this.skip()\<close> and letting the \<open>Pending\<close> marker unwind it.
  The argument of \<open>timeout\<close> is \<open>undefined\<close> (also: no argument), a number or a
  string.
\<close>

datatype ms_arg = MsUndefined | MsNumber jsnum | MsString string

datatype sync_action = CallDone jsval | CallTimeout ms_arg | Elapse int

datatype outcome = Returns jsval | Throws jsval | Skips

record func =
  f_length :: nat
  f_text :: string
  f_actions :: "sync_action list"
  f_outcome :: outcome

text \<open>
  The \<open>fn\<close> argument: absent (or any falsy value), a truthy value that is no
  function (\<open>typeof fn.call !== 'function'\<close>; it carries its \<open>toString()\<close> and its
  \<open>length\<close>, 0 for a falsy one), or a function.
\<close>

datatype fnval = FnUndefined | FnNonFunction string nat | FnFunction func

text \<open>
  The timer handle of \<open>setTimeout\<close>: the delay its callback closed over and whether it
  is still to fire (\<open>clearTimeout\<close> and firing both end that).
\<close>

record timer_handle =
  t_ms :: jsnum
  t_armed :: bool

text \<open>
  The fields of a Runnable. \<open>p_timeout\<close>, \<open>p_slow\<close>, \<open>p_retries\<close>, \<open>p_currentRetry\<close>
  and \<open>p_allowedGlobals\<close> are the source's \<open>_timeout\<close>, \<open>_slow\<close>, \<open>_retries\<close>,
  \<open>_currentRetry\<close> and \<open>_allowedGlobals\<close>; \<open>rid\<close> is \<open>id\<close> and \<open>rfile\<close> is \<open>file\<close>.
  \<open>async\<close> is \<open>!!fn && fn.length\<close>, with 0 for every falsy value. \<open>type\<close> is
  \<open>None\<close> when the object has no \<open>type\<close> property (a bare Runnable). \<open>skip_own\<close>
  tells whether \<open>run\<close> has replaced \<open>this.skip\<close> by its \<open>asyncSkip\<close>. The
  \<open>callback\<close> field is part of the state of a run, below.

  Of the context object \<open>ctx\<close> the code reads whether it has a \<open>runnable\<close> method
  and the title and id of its \<open>currentTest\<close>; \<open>ctx.runnable(r)\<close> stores \<open>r\<close> in it
  (here: its id).
\<close>

record ctx_obj =
  has_runnable :: bool
  c_runnable :: "string option"
  currentTest :: "(string \<times> string) option"

record runnable =
  title :: string
  fn :: fnval
  body :: string
  async :: nat
  sync :: bool
  p_timeout :: jsnum
  p_slow :: jsnum
  p_retries :: int
  p_currentRetry :: int
  p_allowedGlobals :: "string list option"
  rid :: string
  type :: "string option"
  timedOut :: bool
  pending :: bool
  state :: "string option"
  err :: "merror option"
  parent :: "suite option"
  duration :: "int option"
  rfile :: "string option"
  timer :: "timer_handle option"
  ctx :: "ctx_obj option"
  allowUncaught :: bool
  asyncOnly :: bool
  skip_own :: bool

text \<open>\<open>Runnable.prototype.reset\<close>\<close>

definition reset :: "'a runnable_scheme \<Rightarrow> 'a runnable_scheme" where
  "reset r = r\<lparr>timedOut := False, p_currentRetry := 0, pending := False,
                state := None, err := None\<rparr>"

text \<open>
  The constructor. \<open>utils.assignNewMochaID\<close> is not among the sources; the fresh id is
  a parameter. The constructor ends with \<open>this.reset()\<close>, which a Hook or a Test
  overrides: here it is the bare Runnable's.
\<close>

definition Runnable_fields :: "string \<Rightarrow> string \<Rightarrow> fnval \<Rightarrow> runnable" where
  "Runnable_fields new_id title' fn' =
     \<lparr>title = title', fn = fn',
      body = (case fn' of FnUndefined \<Rightarrow> [] | FnNonFunction s n \<Rightarrow> s | FnFunction f \<Rightarrow> f_text f),
      async = (case fn' of FnUndefined \<Rightarrow> 0 | FnNonFunction s n \<Rightarrow> n | FnFunction f \<Rightarrow> f_length f),
      sync = (case fn' of FnUndefined \<Rightarrow> True | FnNonFunction s n \<Rightarrow> n = 0
              | FnFunction f \<Rightarrow> f_length f = 0),
      p_timeout = Fin 2000, p_slow = Fin 75, p_retries = - 1, p_currentRetry = 0,
      p_allowedGlobals = None, rid = new_id, type = None,
      timedOut = False, pending = False, state = None, err = None,
      parent = None, duration = None, rfile = None, timer = None, ctx = None,
      allowUncaught = False, asyncOnly = False, skip_own = False\<rparr>"

definition Runnable :: "string \<Rightarrow> string \<Rightarrow> fnval \<Rightarrow> runnable" where
  "Runnable new_id title' fn' = reset (Runnable_fields new_id title' fn')"

subsection \<open>timeout\<close>

definition INT_MAX :: jsnum where
  "INT_MAX = Fin (2 ^ 31 - 1)"

text \<open>
  Modelled from the spec: \<open>utils.clamp\<close> (utils.ts is not among the sources), "clamped
  to the range [0, 2^31-1]": a value below the range becomes its lower end, a value above
  it its upper end, with JavaScript's comparisons (both are false of \<open>NaN\<close>).
\<close>

definition clamp :: "jsnum \<Rightarrow> jsnum \<times> jsnum \<Rightarrow> jsnum" where
  "clamp v rng =
     (if js_lt v (fst rng) then fst rng
      else if js_gt v (snd rng) then snd rng else v)"

text \<open>\<open>Runnable.prototype.clearTimeout\<close>\<close>

definition clearTimeout :: "'a runnable_scheme \<Rightarrow> 'a runnable_scheme" where
  "clearTimeout r = r\<lparr>timer := map_option (\<lambda>t. t\<lparr>t_armed := False\<rparr>) (timer r)\<rparr>"

text \<open>
  \<open>Runnable.prototype.resetTimeout\<close>. What the timer's callback does when it fires is
  \<open>timer_fires\<close> below.
\<close>

definition resetTimeout :: "'a runnable_scheme \<Rightarrow> 'a runnable_scheme" where
  "resetTimeout r =
     (let ms = p_timeout r in
      if js_seq ms (Fin 0) then r
      else (clearTimeout r)\<lparr>timer := Some \<lparr>t_ms = ms, t_armed = True\<rparr>\<rparr>)"

text \<open>
  \<open>Runnable.prototype.timeout\<close>. The result is the value returned, the threshold or
  \<open>this\<close>, and the Runnable after the call.
\<close>

datatype 'a returned = RetNumber jsnum | RetThis | RetValue 'a

definition timeout ::
  "lib \<Rightarrow> ms_arg \<Rightarrow> 'a runnable_scheme \<Rightarrow> unit returned \<times> 'a runnable_scheme" where
  "timeout l arg r =
     (case arg of
        MsUndefined \<Rightarrow> (RetNumber (p_timeout r), r)
      | _ \<Rightarrow>
        (let ms = (case arg of MsString s \<Rightarrow> milliseconds l s | MsNumber n \<Rightarrow> n | _ \<Rightarrow> NaN);
             rng = (Fin 0, INT_MAX);
             ms = clamp ms rng;
             r = (if js_seq ms (fst rng) \<or> js_seq ms (snd rng)
                  then r\<lparr>p_timeout := Fin 0\<rparr> else r\<lparr>p_timeout := ms\<rparr>);
             r = (if timer r \<noteq> None then resetTimeout r else r)
         in (RetThis, r)))"

text \<open>\<open>Runnable.prototype.slow\<close>, \<open>retries\<close>, \<open>currentRetry\<close>, \<open>globals\<close>.\<close>

definition slow ::
  "lib \<Rightarrow> ms_arg \<Rightarrow> 'a runnable_scheme \<Rightarrow> unit returned \<times> 'a runnable_scheme" where
  "slow l arg r =
     (case arg of
        MsUndefined \<Rightarrow> (RetNumber (p_slow r), r)
      | MsString s \<Rightarrow> (RetThis, r\<lparr>p_slow := milliseconds l s\<rparr>)
      | MsNumber n \<Rightarrow> (RetThis, r\<lparr>p_slow := n\<rparr>))"

definition retries ::
  "int option \<Rightarrow> 'a runnable_scheme \<Rightarrow> int option \<times> 'a runnable_scheme" where
  "retries n r =
     (case n of None \<Rightarrow> (Some (p_retries r), r)
      | Some k \<Rightarrow> (None, r\<lparr>p_retries := k\<rparr>))"

definition currentRetry ::
  "int option \<Rightarrow> 'a runnable_scheme \<Rightarrow> int option \<times> 'a runnable_scheme" where
  "currentRetry n r =
     (case n of None \<Rightarrow> (Some (p_currentRetry r), r)
      | Some k \<Rightarrow> (None, r\<lparr>p_currentRetry := k\<rparr>))"

definition globals ::
  "string list option \<Rightarrow> 'a runnable_scheme \<Rightarrow> string list option \<times> 'a runnable_scheme" where
  "globals g r =
     (case g of None \<Rightarrow> (p_allowedGlobals r, r)
      | Some xs \<Rightarrow> (None, r\<lparr>p_allowedGlobals := Some xs\<rparr>))"

subsection \<open>Pending, titles\<close>

definition isPending :: "'a runnable_scheme \<Rightarrow> bool" where
  "isPending r =
     (pending r \<or> (case parent r of None \<Rightarrow> False | Some p \<Rightarrow> suite_isPending p))"

definition titlePath :: "'a runnable_scheme \<Rightarrow> string list" where
  "titlePath r =
     (case parent r of None \<Rightarrow> [] | Some p \<Rightarrow> suite_titlePath p) @ [title r]"

definition fullTitle :: "'a runnable_scheme \<Rightarrow> string" where
  "fullTitle r = join '' '' (titlePath r)"

subsection \<open>run\<close>

text \<open>\<open>new Errors.Error(message)\<close> and \<open>new Errors.TypeError(message)\<close>\<close>

definition new_Error :: "string \<Rightarrow> merror" where
  "new_Error msg = MError ''Error'' msg None []"

definition new_TypeError :: "string \<Rightarrow> merror" where
  "new_TypeError msg = MError ''TypeError'' msg None []"

text \<open>\<open>if (this.file)\<close>: the file is set and not the empty string.\<close>

definition file_set :: "string option \<Rightarrow> bool" where
  "file_set f = (case f of None \<Rightarrow> False | Some p \<Rightarrow> p \<noteq> [])"

text \<open>\<open>this.file || ""\<close>\<close>

definition file_text :: "string option \<Rightarrow> string" where
  "file_text f = (case f of None \<Rightarrow> [] | Some p \<Rightarrow> p)"

text \<open>\<open>Runnable.prototype._timeoutError\<close>\<close>

definition timeoutError :: "lib \<Rightarrow> 'a runnable_scheme \<Rightarrow> jsnum \<Rightarrow> merror" where
  \<open>timeoutError l r ms =
     (let msg = ''Timeout of '' @ num_text l ms @
            ''ms exceeded. For async tests and hooks, ensure "done()" is called; if returning a Promise, ensure it resolves.'';
          msg = (if file_set (rfile r) then msg @ '' ('' @ file_text (rfile r) @ '')'' else msg)
      in createTimeoutError msg ms (file_text (rfile r)))\<close>

text \<open>
  \<open>createMultipleDoneError\<close> of errors.ts. \<open>runnable.fullTitle()\<close> does not throw
  here, so the \<open>catch\<close> branch (\<open>of unknown suite\<close>) is never taken.
\<close>

definition createMultipleDoneError :: "lib \<Rightarrow> 'a runnable_scheme \<Rightarrow> jsval \<Rightarrow> merror" where
  "createMultipleDoneError l r originalErr =
     (let t = ''<'' @ fullTitle r @ ''>'';
          t = (if (case parent r of None \<Rightarrow> False | Some p \<Rightarrow> s_root p)
               then t @ '' (of root suite)'' else t);
          msg = ''done() called multiple times in '' @
                (case type r of Some ty \<Rightarrow> ty | None \<Rightarrow> ''unknown runnable'') @ '' '' @ t;
          msg = (if file_set (rfile r) then msg @ '' of file '' @ file_text (rfile r) else msg);
          msg = (if truthy originalErr
                 then msg @ ''; in addition, done() received error: '' @ format_s l originalErr
                 else msg)
      in MError ''Error'' msg (Some ''ERR_MOCHA_MULTIPLE_DONE'')
           [(''valueType'', JStr (js_typeof originalErr)), (''value'', originalErr)])"

text \<open>\<open>Runnable.toValueOrError\<close>\<close>

definition toValueOrError :: "jsval \<Rightarrow> jsval" where
  "toValueOrError v =
     (if truthy v then v
      else JError (createInvalidExceptionError
        ''Runnable failed with falsy or undefined exception. Please throw an Error instead.'' v))"

text \<open>
  The state of one call \<open>r.run(fn)\<close>: the Runnable \<open>rn\<close> (\<open>this\<close>, \<open>self\<close>), the
  variables of the closure (\<open>start\<close>, \<open>finished\<close>, \<open>errorWasHandled\<close>, and \<open>result\<close> of
  \<open>callFnAsync\<close>, unassigned until the body has returned), and what the call does to
  the world: the arguments of each invocation of the completion \<open>fn\<close>, in order; the
  \<open>error\<close> events emitted; how often the body was called; an exception that leaves
  \<open>run\<close> (with \<open>allowUncaught\<close>). \<open>now\<close> is what \<open>new Date()\<close> reads.
  \<open>callback\<close> tells that \<open>this.callback\<close> is the \<open>done\<close> of this call; \<open>cb_given\<close>
  that the body has received the completion callback of \<open>callFnAsync\<close>;
  \<open>then_registered\<close> that \<open>callFn\<close> has called \<open>result.then\<close>. The completion \<open>fn\<close>
  itself is the caller's: it is taken to return normally.
\<close>

record 'a run_state =
  rn :: "'a runnable_scheme"
  start :: int
  finished :: bool
  errorWasHandled :: bool
  result :: "jsval option"
  now :: int
  completions :: "jsval list"
  emitted :: "merror list"
  body_runs :: nat
  rethrown :: "jsval option"
  callback :: bool
  cb_given :: bool
  then_registered :: bool

text \<open>\<open>multiple\<close> and \<open>done\<close> (here \<open>run_done\<close>), the inner functions of \<open>run\<close>.\<close>

definition multiple :: "lib \<Rightarrow> jsval \<Rightarrow> 'a run_state \<Rightarrow> 'a run_state" where
  "multiple l e s =
     (if errorWasHandled s then s
      else s\<lparr>errorWasHandled := True,
             emitted := emitted s @ [createMultipleDoneError l (rn s) e]\<rparr>)"

definition run_done :: "lib \<Rightarrow> jsval \<Rightarrow> 'a run_state \<Rightarrow> 'a run_state" where
  "run_done l e s =
     (let ms = p_timeout (rn s) in
      if timedOut (rn s) then s
      else if finished s then multiple l e s
      else
        (let r = clearTimeout (rn s);
             d = now s - start s;
             r = r\<lparr>duration := Some d\<rparr>;
             e = (if \<not> truthy e \<and> js_gt (Fin (of_int d)) ms \<and> js_gt ms (Fin 0)
                  then JError (timeoutError l r ms) else e)
         in s\<lparr>rn := r, finished := True, completions := completions s @ [e]\<rparr>))"

text \<open>The callback of the timer that \<open>resetTimeout\<close> sets, when the timer fires.\<close>

definition timer_fires :: "lib \<Rightarrow> 'a run_state \<Rightarrow> 'a run_state" where
  "timer_fires l s =
     (case timer (rn s) of
        None \<Rightarrow> s
      | Some t \<Rightarrow>
        if \<not> t_armed t then s
        else
          (let s = s\<lparr>rn := (rn s)\<lparr>timer := Some (t\<lparr>t_armed := False\<rparr>)\<rparr>\<rparr> in
           if js_seq (p_timeout (rn s)) (Fin 0) then s
           else
             (let s = (if callback s then run_done l (JError (timeoutError l (rn s) (t_ms t))) s
                       else s)
              in s\<lparr>rn := (rn s)\<lparr>timedOut := True\<rparr>\<rparr>)))"

text \<open>The function that \<open>callFnAsync\<close> passes to the body as its completion callback.\<close>

definition user_callback :: "lib \<Rightarrow> jsval \<Rightarrow> 'a run_state \<Rightarrow> 'a run_state" where
  "user_callback l e s =
     (if is_error e then run_done l e s
      else if truthy e then
        (if is_plain_object e
         then run_done l (JError (new_Error (''done() invoked with non-Error: '' @ json_stringify l e))) s
         else run_done l (JError (new_Error (''done() invoked with non-Error: '' @ to_text l e))) s)
      else if (case result s of None \<Rightarrow> False | Some res \<Rightarrow> truthy res \<and> isPromise res)
      then run_done l (JError (new_Error
        ''Resolution method is overspecified. Specify a callback *or* return a Promise; not both.'')) s
      else run_done l JUndefined s)"

text \<open>
  What the body does while it runs. Only \<open>callFnAsync\<close> gives it a completion callback
  to call.
\<close>

fun sync_act :: "lib \<Rightarrow> bool \<Rightarrow> 'a run_state \<Rightarrow> sync_action \<Rightarrow> 'a run_state" where
  "sync_act l has_cb s (CallDone v) = (if has_cb then user_callback l v s else s)"
| "sync_act l has_cb s (CallTimeout a) = s\<lparr>rn := snd (timeout l a (rn s))\<rparr>"
| "sync_act l has_cb s (Elapse d) = s\<lparr>now := now s + d\<rparr>"

text \<open>The \<open>catch\<close> clauses of \<open>run\<close>, for a thrown value that is no \<open>Pending\<close>.\<close>

definition caught :: "lib \<Rightarrow> jsval \<Rightarrow> 'a run_state \<Rightarrow> 'a run_state" where
  "caught l e s =
     (let s = s\<lparr>errorWasHandled := True\<rparr> in
      if allowUncaught (rn s) then s\<lparr>rethrown := Some e\<rparr>
      else run_done l (toValueOrError e) s)"

text \<open>
  \<open>callFnAsync\<close> inside its \<open>try\<close>: the body is called with the completion callback;
  \<open>this.skip\<close> is \<open>asyncSkip\<close> here. Calling an absent \<open>fn\<close> throws the engine's
  \<open>TypeError\<close>.
\<close>

definition callFnAsync :: "lib \<Rightarrow> fnval \<Rightarrow> 'a run_state \<Rightarrow> 'a run_state" where
  "callFnAsync l fv s =
     (case fv of
        FnFunction f \<Rightarrow>
          (let s = s\<lparr>body_runs := Suc (body_runs s), cb_given := True\<rparr>;
               s = foldl (sync_act l True) s (f_actions f)
           in case f_outcome f of
                Returns v \<Rightarrow> s\<lparr>result := Some v\<rparr>
              | Throws e \<Rightarrow> caught l e s
              | Skips \<Rightarrow>
                  (let s = s\<lparr>rn := (rn s)\<lparr>pending := True\<rparr>\<rparr>;
                       s = run_done l JUndefined s
                   in s\<lparr>errorWasHandled := True\<rparr>))
      | _ \<Rightarrow> caught l (call_of_undefined l) s)"

text \<open>
  \<open>callFn\<close> inside its \<open>try\<close>: the body is called with no argument; \<open>this.skip\<close> is
  \<open>Runnable.prototype.skip\<close>.
\<close>

definition callFn :: "lib \<Rightarrow> fnval \<Rightarrow> 'a run_state \<Rightarrow> 'a run_state" where
  "callFn l fv s =
     (case fv of
        FnFunction f \<Rightarrow>
          (let s = s\<lparr>body_runs := Suc (body_runs s)\<rparr>;
               s = foldl (sync_act l False) s (f_actions f)
           in case f_outcome f of
                Returns v \<Rightarrow>
                  if truthy v \<and> is_thenable v
                  then s\<lparr>rn := resetTimeout (rn s), then_registered := True\<rparr>
                  else if asyncOnly (rn s)
                  then run_done l (JError (new_Error
                    ''--async-only option in use without declaring `done()` or returning a promise'')) s
                  else run_done l JUndefined s
              | Throws e \<Rightarrow> caught l e s
              | Skips \<Rightarrow>
                  (let s = s\<lparr>rn := (rn s)\<lparr>pending := True\<rparr>, errorWasHandled := True\<rparr>
                   in run_done l JUndefined s))
      | _ \<Rightarrow> caught l (call_of_undefined l) s)"

text \<open>
  \<open>Runnable.prototype.run\<close>, up to the return of the call: \<open>t0\<close> is the time at which
  it is called.
\<close>

definition run :: "lib \<Rightarrow> int \<Rightarrow> 'a runnable_scheme \<Rightarrow> 'a run_state" where
  "run l t0 r =
     (let s = \<lparr>rn = r, start = t0, finished = False, errorWasHandled = False, result = None,
               now = t0, completions = [], emitted = [], body_runs = 0, rethrown = None,
               callback = False, cb_given = False, then_registered = False\<rparr>
      in if isPending r then s\<lparr>completions := [JUndefined]\<rparr>
         else
           (let r = (case ctx r of
                       None \<Rightarrow> r
                     | Some c \<Rightarrow> if has_runnable c
                                 then r\<lparr>ctx := Some (c\<lparr>c_runnable := Some (rid r)\<rparr>)\<rparr> else r);
                s = s\<lparr>rn := r, callback := True\<rparr>
            in case fn r of
                 FnNonFunction x n \<Rightarrow>
                   run_done l (JError (new_TypeError
                     ''A runnable must be passed a function as its second argument.'')) s
               | _ \<Rightarrow>
                   if async r \<noteq> 0
                   then callFnAsync l (fn r)
                          (s\<lparr>rn := (resetTimeout (rn s))\<lparr>skip_own := True\<rparr>\<rparr>)
                   else callFn l (fn r) s))"

text \<open>
  What happens after \<open>run\<close> has returned: time passes, the user's code calls the
  completion callback it was given or \<open>timeout(ms)\<close>, the returned thenable is
  fulfilled or rejected, the timer fires.
\<close>

datatype event =
  Tick int | UserDone jsval | UserTimeout ms_arg | Fulfilled | Rejected jsval | TimerFires

fun step :: "lib \<Rightarrow> 'a run_state \<Rightarrow> event \<Rightarrow> 'a run_state" where
  "step l s (Tick d) = s\<lparr>now := now s + d\<rparr>"
| "step l s (UserDone v) = (if cb_given s then user_callback l v s else s)"
| "step l s (UserTimeout a) = s\<lparr>rn := snd (timeout l a (rn s))\<rparr>"
| "step l s Fulfilled = (if then_registered s then run_done l JUndefined s else s)"
| "step l s (Rejected reason) =
     (if then_registered s
      then run_done l (if truthy reason then reason
                   else JError (new_Error ''Promise rejected with no or falsy reason'')) s
      else s)"
| "step l s TimerFires = timer_fires l s"

definition exec :: "lib \<Rightarrow> 'a run_state \<Rightarrow> event list \<Rightarrow> 'a run_state" where
  "exec l s evs = foldl (step l) s evs"

section \<open>hook.ts\<close>

text \<open>
  A Hook is a Runnable with a \<open>type\<close> and the retained error \<open>_error\<close> (here
  \<open>p_error\<close>): an error, \<open>null\<close>, or \<open>undefined\<close> when the property is absent.
\<close>

record hook = runnable +
  p_error :: jsval

text \<open>\<open>Hook.prototype.reset\<close>\<close>

definition Hook_reset :: "hook \<Rightarrow> hook" where
  "Hook_reset h = (reset h)\<lparr>p_error := JUndefined\<rparr>"

text \<open>
  The constructor: \<open>Runnable.call(this, title, fn)\<close>, whose final \<open>this.reset()\<close> is
  the Hook's, then \<open>this.type = 'hook'\<close>.
\<close>

definition Hook :: "string \<Rightarrow> string \<Rightarrow> fnval \<Rightarrow> hook" where
  "Hook new_id title' fn' =
     (Hook_reset (runnable.extend (Runnable_fields new_id title' fn') (hook.fields JUndefined)))
       \<lparr>type := Some ''hook''\<rparr>"

text \<open>
  \<open>Hook.prototype.error\<close>: the argument list is empty (\<open>None\<close>) or holds one value.
  The result is the value returned and the Hook after the call.
\<close>

definition Hook_error :: "jsval option \<Rightarrow> hook \<Rightarrow> jsval \<times> hook" where
  "Hook_error arg h =
     (case arg of
        None \<Rightarrow> (p_error h, h\<lparr>p_error := JNull\<rparr>)
      | Some e \<Rightarrow> (JUndefined, h\<lparr>p_error := e\<rparr>))"





section \<open>test.ts\<close>

text \<open>
  A Test is a Runnable with a \<open>type\<close>, the Test it was retried from (\<open>_retriedTest\<close>,
  here \<open>p_retriedTest\<close>) and a \<open>speed\<close> that reporters set. The title is a string by
  its type, so the constructor's check of it never throws.
\<close>

datatype test =
  Test (t_base: runnable) (p_retriedTest: "test option") (speed: "string option")

definition with_base :: "(runnable \<Rightarrow> 'v \<times> runnable) \<Rightarrow> test \<Rightarrow> 'v \<times> test" where
  "with_base f t =
     (case f (t_base t) of (v, r) \<Rightarrow> (v, Test r (p_retriedTest t) (speed t)))"

text \<open>\<open>Test.prototype.reset\<close>\<close>

definition Test_reset :: "test \<Rightarrow> test" where
  "Test_reset t =
     Test ((reset (t_base t))\<lparr>pending := (fn (t_base t) = FnUndefined), state := None\<rparr>)
       (p_retriedTest t) (speed t)"

text \<open>
  The constructor: \<open>this.type = 'test'\<close>, then \<open>Runnable.call(this, title, fn)\<close>,
  whose final \<open>this.reset()\<close> is the Test's, then \<open>this.reset()\<close> again.
\<close>

definition Test_new :: "string \<Rightarrow> string \<Rightarrow> fnval \<Rightarrow> test" where
  "Test_new new_id title' fn' =
     Test_reset (Test_reset
       (Test ((Runnable_fields new_id title' fn')\<lparr>type := Some ''test''\<rparr>) None None))"

text \<open>\<open>Test.prototype.retriedTest\<close>\<close>

definition retriedTest :: "test option \<Rightarrow> test \<Rightarrow> test option \<times> test" where
  "retriedTest arg t =
     (case arg of
        None \<Rightarrow> (p_retriedTest t, t)
      | Some x \<Rightarrow> (None, Test (t_base t) (Some x) (speed t)))"

text \<open>The number a getter returned, as the argument of the setter.\<close>

fun as_arg :: "unit returned \<Rightarrow> ms_arg" where
  "as_arg (RetNumber n) = MsNumber n"
| "as_arg v = MsUndefined"

text \<open>
  \<open>Test.prototype.clone\<close>. The result is the clone and \<open>this\<close> after the call:
  \<open>this\<close> goes through every getter that the clone is built from.
\<close>

definition Test_clone :: "lib \<Rightarrow> string \<Rightarrow> test \<Rightarrow> test \<times> test" where
  "Test_clone l new_id this =
     (let test = Test_new new_id (title (t_base this)) (fn (t_base this));
          (ms, this) = with_base (timeout l MsUndefined) this;
          (u, test) = with_base (timeout l (as_arg ms)) test;
          (sl, this) = with_base (slow l MsUndefined) this;
          (u, test) = with_base (slow l (as_arg sl)) test;
          (n, this) = with_base (retries None) this;
          (u, test) = with_base (retries n) test;
          (c, this) = with_base (currentRetry None) this;
          (u, test) = with_base (currentRetry c) test;
          (rt, this) = retriedTest None this;
          (u, test) = retriedTest (Some (case rt of None \<Rightarrow> this | Some p \<Rightarrow> p)) test;
          (g, this) = with_base (globals None) this;
          (u, test) = with_base (globals g) test;
          test = Test ((t_base test)\<lparr>parent := parent (t_base this),
                                      rfile := rfile (t_base this),
                                      ctx := ctx (t_base this)\<rparr>)
                   (p_retriedTest test) (speed test)
      in (test, this))"



section \<open>interfaces/common.ts: declaring suites\<close>

text \<open>
  The options of the Mocha instance that \<open>create\<close> reads; \<open>grep\<close> is the regular
  expression's \<open>test\<close>, when one is set.
\<close>

record mocha =
  grep :: "(string \<Rightarrow> bool) option"
  invert :: bool
  forbidPending :: bool
  forbidOnly :: bool
  isWorker :: bool

text \<open>
  What \<open>create\<close> works on: the stack \<open>suites\<close> of the suites being declared
  (\<open>suites[0]\<close> is its head) and the suites marked exclusive.
\<close>

record dsl =
  suites :: "suite list"
  only_suites :: "suite list"

text \<open>
  The body \<open>opts.fn\<close> of a suite (\<open>Function | false\<close>, or absent). A function, called
  on the new suite, declares what the suite holds and returns or throws.
\<close>

datatype suite_fn = SFnUndefined | SFnFalse | SFnFunction "suite \<Rightarrow> dsl \<Rightarrow> jsval option \<times> dsl"

record CommonOptions =
  o_title :: string
  o_fn :: suite_fn
  o_pending :: "bool option"
  o_file :: "string option"
  o_isOnly :: "bool option"

text \<open>\<open>Boolean(x)\<close> of an optional flag.\<close>

definition flag :: "bool option \<Rightarrow> bool" where
  "flag b = (case b of None \<Rightarrow> False | Some v \<Rightarrow> v)"

text \<open>
  Modelled from the spec: \<open>Suite.create(parent, title)\<close> (suite.ts is not among the
  sources), which makes the suite a DSL front-end declares: a new suite, not the root,
  not pending, of the given title, owned by \<open>parent\<close>. Its id is a parameter.
\<close>

definition Suite_create :: "string \<Rightarrow> suite option \<Rightarrow> string \<Rightarrow> suite" where
  "Suite_create new_id par t = Suite t False False new_id None par"

text \<open>
  Modelled from the spec: \<open>Suite.prototype.markOnly\<close> (suite.ts is not among the
  sources), "a suite or test may be marked only": the suite is recorded among those
  marked exclusive.
\<close>

definition markOnly :: "suite \<Rightarrow> dsl \<Rightarrow> dsl" where
  "markOnly su d = d\<lparr>only_suites := only_suites d @ [su]\<rparr>"

text \<open>\<open>shouldBeTested\<close>\<close>

definition shouldBeTested :: "mocha \<Rightarrow> suite \<Rightarrow> bool" where
  "shouldBeTested m su =
     (case grep m of None \<Rightarrow> True | Some re \<Rightarrow> re (suite_fullTitle su) \<and> \<not> invert m)"

definition createForbiddenExclusivityError :: "mocha \<Rightarrow> merror" where
  "createForbiddenExclusivityError m =
     MError ''Error''
       (if isWorker m then ''`.only` is not supported in parallel mode''
        else ''`.only` forbidden by --forbid-only'')
       (Some ''ERR_MOCHA_FORBIDDEN_EXCLUSIVITY'') []"

text \<open>
  \<open>suite.create\<close>. The result is the suite returned, or the value thrown (\<open>Inl\<close>),
  and the stack after the call. \<open>suites.shift()\<close> drops the head and leaves an empty
  array empty.
\<close>

definition create ::
  "mocha \<Rightarrow> string \<Rightarrow> CommonOptions \<Rightarrow> dsl \<Rightarrow> (jsval + suite) \<times> dsl" where
  \<open>create m new_id opts d =
     (let su = Suite_create new_id (case suites d of [] \<Rightarrow> None | p # ps \<Rightarrow> Some p) (o_title opts);
          su = Suite (s_title su) (flag (o_pending opts)) (s_root su) (s_id su) (o_file opts)
                 (s_parent su);
          d = d\<lparr>suites := su # suites d\<rparr>;
          d = (if flag (o_isOnly opts) then markOnly su d else d)
      in if s_pending su \<and> forbidPending m \<and> shouldBeTested m su
         then (Inl (JError (createUnsupportedError ''Pending test forbidden'')), d)
         else
           (case o_fn opts of
              SFnFunction f \<Rightarrow>
                (case f su d of
                   (Some thrown, d') \<Rightarrow> (Inl thrown, d')
                 | (None, d') \<Rightarrow> (Inr su, d'\<lparr>suites := tl (suites d')\<rparr>))
            | SFnUndefined \<Rightarrow>
                if \<not> s_pending su
                then (Inl (JError (createMissingArgumentError
                        (''Suite "'' @ suite_fullTitle su @
                         ''" was defined but no callback was supplied. '' @
                         ''Supply a callback or explicitly skip the suite.'')
                        ''callback'' ''function'')), d)
                else (Inr su, d\<lparr>suites := tl (suites d)\<rparr>)
            | SFnFalse \<Rightarrow>
                if s_pending su then (Inr su, d\<lparr>suites := tl (suites d)\<rparr>) else (Inr su, d)))\<close>

text \<open>\<open>suite.skip\<close> and \<open>suite.only\<close>\<close>

definition skip :: "mocha \<Rightarrow> string \<Rightarrow> CommonOptions \<Rightarrow> dsl \<Rightarrow> (jsval + suite) \<times> dsl" where
  "skip m new_id opts d = create m new_id (opts\<lparr>o_pending := Some True\<rparr>) d"

definition only :: "mocha \<Rightarrow> string \<Rightarrow> CommonOptions \<Rightarrow> dsl \<Rightarrow> (jsval + suite) \<times> dsl" where
  "only m new_id opts d =
     (if forbidOnly m then (Inl (JError (createForbiddenExclusivityError m)), d)
      else create m new_id (opts\<lparr>o_isOnly := Some True\<rparr>) d)"

section \<open>Definitions for the analysis\<close>

text \<open>
  The invariant of a call of \<open>run\<close> that executes the body: the completion has been
  invoked exactly once when \<open>finished\<close> is set and not at all before. A call is
  \<open>live\<close> when one of the paths that raise \<open>done\<close> later is open.
\<close>

definition ok :: "'a run_state \<Rightarrow> bool" where
  "ok s = (if finished s then length (completions s) = 1 else completions s = [])"

definition live :: "'a run_state \<Rightarrow> bool" where
  "live s = (callback s \<or> cb_given s \<or> then_registered s)"

text \<open>The suite and its ancestors, innermost first.\<close>

fun suite_chain :: "suite \<Rightarrow> suite list" where
  "suite_chain (Suite t p r i f par) =
     Suite t p r i f par # (case par of None \<Rightarrow> [] | Some q \<Rightarrow> suite_chain q)"

text \<open>
  The thresholds that the constructor and \<open>timeout\<close> store: \<open>NaN\<close>, or a number from
  0 up to, and not including, \<open>2^31-1\<close>.
\<close>

definition valid_threshold :: "jsnum \<Rightarrow> bool" where
  "valid_threshold x = (x = NaN \<or> (\<not> js_lt x (Fin 0) \<and> js_lt x INT_MAX))"

text \<open>
  The operations of a Hook that write the retained error, and when the slot counts as
  empty: it holds \<open>null\<close> or nothing.
\<close>

datatype hook_op = OpError "jsval option" | OpReset

fun hook_apply :: "hook_op \<Rightarrow> hook \<Rightarrow> hook" where
  "hook_apply (OpError arg) h = snd (Hook_error arg h)"
| "hook_apply OpReset h = Hook_reset h"

definition slot_empty :: "jsval \<Rightarrow> bool" where
  "slot_empty v = (v = JNull \<or> v = JUndefined)"


text \<open>The suite that \<open>create\<close> makes of its options.\<close>

definition declared :: "string \<Rightarrow> CommonOptions \<Rightarrow> dsl \<Rightarrow> suite" where
  "declared new_id opts d =
     Suite (o_title opts) (flag (o_pending opts)) False new_id (o_file opts)
       (case suites d of [] \<Rightarrow> None | p # ps \<Rightarrow> Some p)"

subsection \<open>Concrete runs\<close>

text \<open>
  An instance of the platform's functions for the concrete runs below; its texts are
  those of the values that occur in them.
\<close>

definition lib0 :: lib where
  "lib0 = \<lparr>milliseconds = (\<lambda>s. if s = ''2s'' then Fin 2000 else NaN),
           num_text = (\<lambda>n. if n = Fin 50 then ''50'' else ''2000''),
           to_text = (\<lambda>v. ''value''),
           json_stringify = (\<lambda>v. ''{}''),
           format_s = (\<lambda>v. ''Error: boom''),
           call_of_undefined = JError (new_TypeError ''Cannot read properties of undefined'')\<rparr>"

definition done_then_throw :: func where
  "done_then_throw = \<lparr>f_length = 1, f_text = ''function (done) { done(); throw boom; }'',
     f_actions = [CallDone JUndefined], f_outcome = Throws (JError (new_Error ''boom''))\<rparr>"

definition done_then_return :: func where
  "done_then_return = \<lparr>f_length = 1, f_text = ''function (done) { done(); }'',
     f_actions = [CallDone JUndefined], f_outcome = Returns JUndefined\<rparr>"

definition never_done :: func where
  "never_done = \<lparr>f_length = 1, f_text = ''function (done) { }'',
     f_actions = [], f_outcome = Returns JUndefined\<rparr>"

definition done_and_promise :: func where
  "done_and_promise = \<lparr>f_length = 1, f_text = ''function (done) { done(); return promise; }'',
     f_actions = [CallDone JUndefined], f_outcome = Returns (JThenable 0)\<rparr>"

definition slow_sync :: func where
  "slow_sync = \<lparr>f_length = 0, f_text = ''function () { work(); }'',
     f_actions = [Elapse 100], f_outcome = Returns JUndefined\<rparr>"

definition returns_promise :: func where
  "returns_promise = \<lparr>f_length = 1, f_text = ''function (done) { return promise; }'',
     f_actions = [], f_outcome = Returns (JThenable 0)\<rparr>"

text \<open>A test of the given body, with a timeout of 50 ms.\<close>

definition test_of :: "func \<Rightarrow> runnable" where
  "test_of f = (t_base (Test_new ''id1'' ''a test'' (FnFunction f)))\<lparr>p_timeout := Fin 50\<rparr>"

text \<open>
  The run of a test that never calls \<open>done\<close>, after its timer has fired; the state of
  the run of a synchronous test that took 100 ms, when \<open>callFn\<close> raises \<open>done\<close>; a test
  inside a suite whose parent is pending.
\<close>

definition timed_out_state :: "unit run_state" where
  "timed_out_state = exec lib0 (run lib0 0 (test_of never_done)) [Tick 60, TimerFires]"

definition slow_state :: "unit run_state" where
  "slow_state =
     \<lparr>rn = test_of slow_sync, start = 0, finished = False, errorWasHandled = False,
      result = None, now = 100, completions = [], emitted = [], body_runs = 1,
      rethrown = None, callback = True, cb_given = False, then_registered = False\<rparr>"

definition pending_suite :: suite where
  "pending_suite = Suite ''inner'' False False ''s2'' None
     (Some (Suite ''outer'' True False ''s1'' None None))"

definition pending_test :: runnable where
  "pending_test = (test_of slow_sync)\<lparr>parent := Some pending_suite\<rparr>"

text \<open>
  A hook that retains an error; a hook of a suite whose parent is pending; a test to
  clone; the root suite with the stack that holds it, a Mocha instance that forbids
  nothing, and the options of a suite declared with a title only.
\<close>

definition failing_hook :: hook where
  "failing_hook = snd (Hook_error (Some (JError (new_Error ''boom'')))
     (Hook ''h1'' ''before each hook'' (FnFunction slow_sync)))"



definition root_suite :: suite where
  "root_suite = Suite [] False True ''s0'' None None"

definition mocha0 :: mocha where
  "mocha0 = \<lparr>grep = None, invert = False, forbidPending = False, forbidOnly = False,
             isWorker = False\<rparr>"

definition no_body :: CommonOptions where
  "no_body = \<lparr>o_title = ''Array'', o_fn = SFnUndefined, o_pending = None,
              o_file = Some ''test.js'', o_isOnly = None\<rparr>"

definition dsl0 :: dsl where
  "dsl0 = \<lparr>suites = [root_suite], only_suites = []\<rparr>"

section \<open>Facts about a run\<close>

lemmas run_defs = run_def callFn_def callFnAsync_def caught_def user_callback_def run_done_def
  multiple_def timer_fires_def exec_def resetTimeout_def clearTimeout_def isPending_def
  toValueOrError_def createMultipleDoneError_def timeoutError_def createTimeoutError_def
  createInvalidExceptionError_def new_Error_def new_TypeError_def file_set_def file_text_def
  fullTitle_def titlePath_def js_seq_def js_gt_def Let_def

lemmas fixture_defs = lib0_def test_of_def Test_new_def Test_reset_def Runnable_fields_def reset_def
  done_then_throw_def done_then_return_def never_done_def done_and_promise_def slow_sync_def
  returns_promise_def

lemma ok_upd [simp]:
  "ok (s\<lparr>rn := r\<rparr>) = ok s"
  "ok (s\<lparr>errorWasHandled := b\<rparr>) = ok s"
  "ok (s\<lparr>body_runs := n\<rparr>) = ok s"
  "ok (s\<lparr>cb_given := b\<rparr>) = ok s"
  "ok (s\<lparr>callback := b\<rparr>) = ok s"
  "ok (s\<lparr>then_registered := b\<rparr>) = ok s"
  "ok (s\<lparr>result := v\<rparr>) = ok s"
  "ok (s\<lparr>rethrown := w\<rparr>) = ok s"
  "ok (s\<lparr>now := t\<rparr>) = ok s"
  by (simp_all add: ok_def)

lemma multiple_fields [simp]:
  "completions (multiple l e s) = completions s"
  "finished (multiple l e s) = finished s"
  "callback (multiple l e s) = callback s"
  "cb_given (multiple l e s) = cb_given s"
  "then_registered (multiple l e s) = then_registered s"
  "body_runs (multiple l e s) = body_runs s"
  "rn (multiple l e s) = rn s"
  by (simp_all add: multiple_def)

lemma run_done_flags [simp]:
  "callback (run_done l e s) = callback s"
  "cb_given (run_done l e s) = cb_given s"
  "then_registered (run_done l e s) = then_registered s"
  "body_runs (run_done l e s) = body_runs s"
  by (simp_all add: run_done_def Let_def)

lemma run_done_ok: "ok s \<Longrightarrow> ok (run_done l e s)"
  by (auto simp: ok_def run_done_def Let_def)

lemma user_callback_ok: "ok s \<Longrightarrow> ok (user_callback l e s)"
  by (simp add: user_callback_def run_done_ok)

lemma user_callback_flags [simp]:
  "callback (user_callback l e s) = callback s"
  "cb_given (user_callback l e s) = cb_given s"
  "then_registered (user_callback l e s) = then_registered s"
  "body_runs (user_callback l e s) = body_runs s"
  by (simp_all add: user_callback_def)

lemma timer_fires_ok: "ok s \<Longrightarrow> ok (timer_fires l s)"
  by (simp add: timer_fires_def Let_def run_done_ok split: option.splits)

lemma timer_fires_flags [simp]:
  "callback (timer_fires l s) = callback s"
  "cb_given (timer_fires l s) = cb_given s"
  "then_registered (timer_fires l s) = then_registered s"
  "body_runs (timer_fires l s) = body_runs s"
  by (simp_all add: timer_fires_def Let_def split: option.splits)

lemma timer_fires_dead: "\<not> callback s \<Longrightarrow> completions (timer_fires l s) = completions s"
  by (simp add: timer_fires_def Let_def split: option.splits)

lemma step_ok: "ok s \<Longrightarrow> ok (step l s ev)"
  by (cases ev) (simp_all add: run_done_ok user_callback_ok timer_fires_ok)

lemma step_flags [simp]:
  "callback (step l s ev) = callback s"
  "cb_given (step l s ev) = cb_given s"
  "then_registered (step l s ev) = then_registered s"
  "body_runs (step l s ev) = body_runs s"
  by (cases ev; simp)+

lemma step_dead: "\<not> live s \<Longrightarrow> completions (step l s ev) = completions s"
  by (cases ev) (simp_all add: live_def timer_fires_dead)

lemma exec_ok: "ok s \<Longrightarrow> ok (exec l s evs)"
  unfolding exec_def by (induction evs arbitrary: s) (simp_all add: step_ok)

lemma exec_flags [simp]:
  "callback (exec l s evs) = callback s"
  "cb_given (exec l s evs) = cb_given s"
  "then_registered (exec l s evs) = then_registered s"
  "body_runs (exec l s evs) = body_runs s"
  unfolding exec_def by (induction evs arbitrary: s; simp)+

lemma exec_dead: "\<not> live s \<Longrightarrow> completions (exec l s evs) = completions s"
  unfolding exec_def
proof (induction evs arbitrary: s)
  case Nil then show ?case by simp
next
  case (Cons ev evs)
  have "\<not> live (step l s ev)" using Cons.prems by (simp add: live_def)
  then show ?case using Cons by (simp add: step_dead)
qed

lemma sync_act_ok: "ok s \<Longrightarrow> ok (sync_act l b s a)"
  by (cases a) (simp_all add: user_callback_ok)

lemma sync_acts_ok: "ok s \<Longrightarrow> ok (foldl (sync_act l b) s as)"
  by (induction as arbitrary: s) (simp_all add: sync_act_ok)

lemma caught_ok: "ok s \<Longrightarrow> ok (caught l e s)"
  by (simp add: caught_def Let_def run_done_ok)

lemma callFnAsync_ok: "ok s \<Longrightarrow> ok (callFnAsync l fv s)"
  by (auto simp: callFnAsync_def Let_def caught_ok sync_acts_ok run_done_ok
      split: fnval.splits outcome.splits)

lemma callFn_ok: "ok s \<Longrightarrow> ok (callFn l fv s)"
  by (auto simp: callFn_def Let_def caught_ok sync_acts_ok run_done_ok
      split: fnval.splits outcome.splits)

lemma run_ok: "\<not> isPending r \<Longrightarrow> ok (run l t0 r)"
  by (auto simp: run_def Let_def callFn_ok callFnAsync_ok run_done_ok ok_def[of "\<lparr>rn = _, start = _, finished = _, errorWasHandled = _, result = _, now = _, completions = _, emitted = _, body_runs = _, rethrown = _, callback = _, cb_given = _, then_registered = _\<rparr>"]
       split: fnval.splits option.splits)

lemma run_pending: "isPending r \<Longrightarrow> run l t0 r =
   \<lparr>rn = r, start = t0, finished = False, errorWasHandled = False, result = None,
               now = t0, completions = [JUndefined], emitted = [], body_runs = 0, rethrown = None,
               callback = False, cb_given = False, then_registered = False\<rparr>"
  by (simp add: run_def)

lemma at_most_once: "length (completions (exec l (run l t0 r) evs)) \<le> 1"
proof (cases "isPending r")
  case True
  then show ?thesis by (simp add: run_pending exec_dead live_def)
next
  case False
  then have "ok (exec l (run l t0 r) evs)" by (simp add: run_ok exec_ok)
  then show ?thesis by (auto simp: ok_def split: if_splits)
qed

lemma suite_isPending_chain: "suite_isPending su = list_ex s_pending (suite_chain su)"
  by (induction su rule: suite_isPending.induct) (auto split: option.splits)

lemma isPending_chain:
  "isPending r =
     (pending r \<or> (case parent r of None \<Rightarrow> False | Some p \<Rightarrow> list_ex s_pending (suite_chain p)))"
  by (simp add: isPending_def suite_isPending_chain split: option.splits)

lemma multiple_done_message:
  "e_code (createMultipleDoneError l r e) = Some ''ERR_MOCHA_MULTIPLE_DONE''
   \<and> (\<exists>rest. e_message (createMultipleDoneError l r e) =
         ''done() called multiple times in '' @
         (case type r of Some ty \<Rightarrow> ty | None \<Rightarrow> ''unknown runnable'') @ '' <'' @ fullTitle r @ ''>'' @ rest)"
  by (simp add: createMultipleDoneError_def Let_def)

lemma run_done_finished:
  "finished s \<Longrightarrow> \<not> timedOut (rn s) \<Longrightarrow>
     completions (run_done l e s) = completions s
     \<and> emitted (run_done l e s) =
         (if errorWasHandled s then emitted s
          else emitted s @ [createMultipleDoneError l (rn s) e])
     \<and> errorWasHandled (run_done l e s)"
  by (simp add: run_done_def multiple_def)

lemma run_done_timedOut: "timedOut (rn s) \<Longrightarrow> run_done l e s = s"
  by (simp add: run_done_def)

lemma timed_out_state_facts:
  "timedOut (rn timed_out_state) \<and> cb_given timed_out_state
   \<and> length (completions timed_out_state) = 1 \<and> emitted timed_out_state = []"
  by (simp add: timed_out_state_def run_defs fixture_defs)

lemma run_done_first:
  "\<not> finished s \<Longrightarrow> \<not> timedOut (rn s) \<Longrightarrow> truthy e \<Longrightarrow>
     completions (run_done l e s) = completions s @ [e]"
  by (simp add: run_done_def Let_def)

lemma is_error_truthy: "is_error e \<Longrightarrow> truthy e"
  by (cases e) simp_all

lemma isPromise_truthy: "isPromise e \<Longrightarrow> truthy e"
  by (cases e) simp_all

lemma returns_promise_facts:
  "\<not> finished (run lib0 0 (test_of returns_promise))
   \<and> \<not> timedOut (rn (run lib0 0 (test_of returns_promise)))
   \<and> completions (run lib0 0 (test_of returns_promise)) = []
   \<and> result (run lib0 0 (test_of returns_promise)) = Some (JThenable 0)"
  by (simp add: run_defs fixture_defs returns_promise_def)

lemma timeoutError_rfile:
  "rfile r = rfile r' \<Longrightarrow> timeoutError l r ms = timeoutError l r' ms"
  by (simp add: timeoutError_def Let_def)

lemma slow_state_facts:
  "\<not> finished slow_state \<and> \<not> timedOut (rn slow_state) \<and> \<not> truthy JUndefined
     \<and> js_gt (Fin (of_int (now slow_state - start slow_state))) (p_timeout (rn slow_state))
     \<and> js_gt (p_timeout (rn slow_state)) (Fin 0)
     \<and> timer (rn slow_state) = None
     \<and> run lib0 0 (test_of slow_sync) = run_done lib0 JUndefined slow_state"
  by (simp add: slow_state_def run_defs fixture_defs)

lemma run_done_then_return:
  "finished (run lib0 0 (test_of done_then_return))
   \<and> \<not> timedOut (rn (run lib0 0 (test_of done_then_return)))
   \<and> \<not> errorWasHandled (run lib0 0 (test_of done_then_return))
   \<and> completions (run lib0 0 (test_of done_then_return)) = [JUndefined]
   \<and> emitted (run lib0 0 (test_of done_then_return)) = []
   \<and> type (rn (run lib0 0 (test_of done_then_return))) = Some ''test''
   \<and> fullTitle (rn (run lib0 0 (test_of done_then_return))) = ''a test''"
  by (simp add: run_defs fixture_defs)

section \<open>Facts about thresholds, clones, hooks and suites\<close>

lemma p_timeout_resetTimeout: "p_timeout (resetTimeout r) = p_timeout r"
  by (simp add: resetTimeout_def clearTimeout_def Let_def)


lemma js_seq_Fin: "js_seq c (Fin q) = (c = Fin q)"
  by (auto simp: js_seq_def)

lemma timeout_number:
  "p_timeout (snd (timeout l (MsNumber n) r)) =
       (let c = clamp n (Fin 0, INT_MAX) in if c = Fin 0 \<or> c = INT_MAX then Fin 0 else c)"
  by (simp add: timeout_def Let_def p_timeout_resetTimeout js_seq_Fin INT_MAX_def)

lemma timeout_string:
  "timeout l (MsString s) r = timeout l (MsNumber (milliseconds l s)) r"
  by (simp add: timeout_def)

lemma timeout_examples:
  "p_timeout (snd (timeout lib0 (MsNumber PosInf) r)) = Fin 0
   \<and> p_timeout (snd (timeout lib0 (MsNumber (Fin (- 5))) r)) = Fin 0
   \<and> p_timeout (snd (timeout lib0 (MsNumber (Fin (2 ^ 31 - 1))) r)) = Fin 0
   \<and> p_timeout (snd (timeout lib0 (MsNumber (Fin (2 ^ 31 - 2))) r)) = Fin (2 ^ 31 - 2)
   \<and> p_timeout (snd (timeout lib0 (MsString ''2s'') r)) = Fin 2000
   \<and> p_timeout (snd (timeout lib0 (MsNumber (Fin 0)) r)) = Fin 0"
  by (simp add: timeout_number timeout_string clamp_def js_gt_def INT_MAX_def lib0_def)

lemma valid_threshold_fix:
  "valid_threshold x \<Longrightarrow>
     (let c = clamp x (Fin 0, INT_MAX) in if c = Fin 0 \<or> c = INT_MAX then Fin 0 else c) = x"
  by (cases x) (auto simp: valid_threshold_def clamp_def js_gt_def INT_MAX_def Let_def)

lemma timeout_stores_valid: "valid_threshold (p_timeout (snd (timeout l (MsNumber n) r)))"
  by (cases n) (auto simp: timeout_number valid_threshold_def clamp_def js_gt_def INT_MAX_def Let_def)

lemma constructor_valid: "valid_threshold (p_timeout (Runnable new_id t f))"
  by (simp add: Runnable_def Runnable_fields_def reset_def valid_threshold_def INT_MAX_def)

lemma timeout_stores_valid_string:
  "valid_threshold (p_timeout (snd (timeout l (MsString s) r)))"
  by (simp add: timeout_string timeout_stores_valid)

lemma timeout_set_valid:
  "timer r = None \<Longrightarrow> valid_threshold x \<Longrightarrow>
     timeout l (MsNumber x) r = (RetThis, r\<lparr>p_timeout := x\<rparr>)"
  by (cases x)
     (auto simp: timeout_def Let_def js_seq_def valid_threshold_def clamp_def js_gt_def INT_MAX_def)

lemma with_base_get:
  "with_base (timeout l MsUndefined) t = (RetNumber (p_timeout (t_base t)), t)"
  "with_base (slow l MsUndefined) t = (RetNumber (p_slow (t_base t)), t)"
  "with_base (retries None) t = (Some (p_retries (t_base t)), t)"
  "with_base (currentRetry None) t = (Some (p_currentRetry (t_base t)), t)"
  "with_base (globals None) t = (p_allowedGlobals (t_base t), t)"
  "retriedTest None t = (p_retriedTest t, t)"
  by (simp_all add: with_base_def timeout_def slow_def retries_def currentRetry_def globals_def
      retriedTest_def)

lemma with_base_set:
  "timer r = None \<Longrightarrow> valid_threshold x \<Longrightarrow>
     with_base (timeout l (MsNumber x)) (Test r p sp) = (RetThis, Test (r\<lparr>p_timeout := x\<rparr>) p sp)"
  "with_base (slow l (MsNumber y)) (Test r p sp) = (RetThis, Test (r\<lparr>p_slow := y\<rparr>) p sp)"
  "with_base (retries (Some n)) (Test r p sp) = (None, Test (r\<lparr>p_retries := n\<rparr>) p sp)"
  "with_base (currentRetry (Some n)) (Test r p sp) = (None, Test (r\<lparr>p_currentRetry := n\<rparr>) p sp)"
  "with_base (globals g) (Test r p sp) =
     (case g of None \<Rightarrow> (p_allowedGlobals r, Test r p sp)
      | Some xs \<Rightarrow> (None, Test (r\<lparr>p_allowedGlobals := Some xs\<rparr>) p sp))"
  "retriedTest (Some q) (Test r p sp) = (None, Test r (Some q) sp)"
  by (simp_all add: with_base_def timeout_set_valid slow_def retries_def currentRetry_def
      globals_def retriedTest_def split: option.splits)

lemma Test_new_eq:
  "Test_new new_id ti f =
     Test ((Runnable_fields new_id ti f)\<lparr>type := Some ''test'', pending := (f = FnUndefined)\<rparr>)
       None None"
  by (simp add: Test_new_def Test_reset_def reset_def Runnable_fields_def)

lemma Test_clone_eq:
  assumes "valid_threshold (p_timeout (t_base t))"
  shows "Test_clone l new_id t =
     (Test ((Runnable_fields new_id (title (t_base t)) (fn (t_base t)))
              \<lparr>type := Some ''test'', pending := (fn (t_base t) = FnUndefined),
               p_timeout := p_timeout (t_base t), p_slow := p_slow (t_base t),
               p_retries := p_retries (t_base t), p_currentRetry := p_currentRetry (t_base t),
               p_allowedGlobals := p_allowedGlobals (t_base t),
               parent := parent (t_base t), rfile := rfile (t_base t), ctx := ctx (t_base t)\<rparr>)
        (Some (case p_retriedTest t of None \<Rightarrow> t | Some p \<Rightarrow> p)) None, t)"
proof -
  have tm: "timer ((Runnable_fields new_id (title (t_base t)) (fn (t_base t)))
              \<lparr>type := Some ''test'', pending := (fn (t_base t) = FnUndefined)\<rparr>) = None"
    by (simp add: Runnable_fields_def)
  show ?thesis
    unfolding Test_clone_def Test_new_eq
    using assms tm
    by (cases "p_allowedGlobals (t_base t)")
       (simp_all add: Let_def with_base_get with_base_set Runnable_fields_def)
qed

lemma Test_new_valid: "valid_threshold (p_timeout (t_base (Test_new new_id ti f)))"
  by (simp add: Test_new_eq Runnable_fields_def valid_threshold_def INT_MAX_def)

lemma Test_clone_valid:
  "valid_threshold (p_timeout (t_base t)) \<Longrightarrow>
     valid_threshold (p_timeout (t_base (fst (Test_clone l new_id t))))"
  by (simp add: Test_clone_eq)


lemma failing_hook_slot: "p_error failing_hook = JError (new_Error ''boom'')"
  by (simp add: failing_hook_def Hook_error_def)

lemma no_body_facts:
  "o_fn no_body = SFnUndefined \<and> \<not> flag (o_pending no_body)
   \<and> suite_fullTitle (declared ''s1'' no_body dsl0) = ''Array''
   \<and> flag (o_pending (no_body\<lparr>o_pending := Some True\<rparr>))
   \<and> \<not> forbidPending mocha0"
  by (simp add: no_body_def flag_def declared_def dsl0_def root_suite_def suite_fullTitle_def mocha0_def)

section \<open>The claims\<close>

text \<open>
  C1, as the code has it. The completion \<open>fn\<close> is invoked at most once in a call of
  \<open>run\<close>, whatever the body does and whatever happens afterwards. When \<open>done\<close> is
  raised again after the completion was invoked (\<open>finished\<close>) and the Runnable has not
  timed out, the completion is not invoked again and no second outcome is produced; the
  signal emits exactly one \<open>ERR_MOCHA_MULTIPLE_DONE\<close> error, its message naming the
  Runnable's type and full title, when no error was handled before
  (\<open>errorWasHandled\<close> is false), and emits nothing when one was: \<open>errorWasHandled\<close> is
  set by the \<open>catch\<close> clauses of \<open>run\<close> and by the first such report.
\<close>

theorem completion_at_most_once:
  "length (completions (exec l (run l t0 r) evs)) \<le> 1
   \<and> (finished s \<and> \<not> timedOut (rn s) \<longrightarrow>
        completions (run_done l e s) = completions s
        \<and> emitted (run_done l e s) =
            (if errorWasHandled s then emitted s
             else emitted s @ [createMultipleDoneError l (rn s) e])
        \<and> errorWasHandled (run_done l e s)
        \<and> e_code (createMultipleDoneError l (rn s) e) = Some ''ERR_MOCHA_MULTIPLE_DONE''
        \<and> (\<exists>rest. e_message (createMultipleDoneError l (rn s) e) =
              ''done() called multiple times in '' @
              (case type (rn s) of Some ty \<Rightarrow> ty | None \<Rightarrow> ''unknown runnable'') @
              '' <'' @ fullTitle (rn s) @ ''>'' @ rest))"
  using at_most_once[of l t0 r evs] run_done_finished[of s l e] multiple_done_message[of l "rn s" e]
  by blast

text \<open>
  A test whose body calls \<open>done()\<close> and returns, and whose code calls \<open>done()\<close> once
  more later: the second call is reported, once.
\<close>

theorem completion_at_most_once_witness:
  "length (completions (exec lib0 (run lib0 0 (test_of done_then_return)) [UserDone JUndefined])) \<le> 1
   \<and> finished (run lib0 0 (test_of done_then_return))
   \<and> \<not> timedOut (rn (run lib0 0 (test_of done_then_return)))
   \<and> completions (run_done lib0 JUndefined (run lib0 0 (test_of done_then_return))) = [JUndefined]
   \<and> length (emitted (run_done lib0 JUndefined (run lib0 0 (test_of done_then_return)))) = 1"
  using completion_at_most_once[of lib0 0 "test_of done_then_return" "[UserDone JUndefined]"
      "run lib0 0 (test_of done_then_return)" JUndefined] run_done_then_return
  by simp

text \<open>
  C1 as stated fails: a body that calls \<open>done()\<close> and then throws raises \<open>done\<close> a
  second time, from the \<open>catch\<close> clause, after the completion was invoked and with no
  timeout; no error is emitted, and none is for any later signal either.
\<close>

theorem multiple_done_counterexample:
  "finished (run lib0 0 (test_of done_then_throw))
   \<and> \<not> timedOut (rn (run lib0 0 (test_of done_then_throw)))
   \<and> completions (run lib0 0 (test_of done_then_throw)) = [JUndefined]
   \<and> emitted (run lib0 0 (test_of done_then_throw)) = []
   \<and> emitted (run_done lib0 JUndefined (run lib0 0 (test_of done_then_throw))) = []"
  by (simp add: run_defs fixture_defs)

text \<open>
  C2, as the code has it. Once the timer has fired and set \<open>timedOut\<close>, a completion
  attempt from the user's callback or from the settled thenable is ignored: \<open>done\<close>
  returns at its first test, so the state of the run is unchanged. No
  multiple-completion report is emitted, the completion is not invoked again, and no
  second outcome is produced.
\<close>

theorem timed_out_ignores_completion:
  "timedOut (rn s) \<Longrightarrow>
     step l s (UserDone e) = s \<and> step l s Fulfilled = s \<and> step l s (Rejected e) = s
     \<and> user_callback l e s = s \<and> run_done l e s = s"
  by (simp add: user_callback_def run_done_timedOut)

text \<open>
  A test with a timeout of 50 ms that never calls \<open>done\<close>: after 60 ms the timer
  fires; a call of \<open>done()\<close> after that changes nothing.
\<close>

theorem timed_out_ignores_completion_witness:
  "timedOut (rn timed_out_state) \<and> cb_given timed_out_state
   \<and> step lib0 timed_out_state (UserDone JUndefined) = timed_out_state
   \<and> completions (step lib0 timed_out_state (UserDone JUndefined)) = completions timed_out_state
   \<and> emitted (step lib0 timed_out_state (UserDone JUndefined)) = emitted timed_out_state"
  using timed_out_ignores_completion[of timed_out_state lib0 JUndefined] timed_out_state_facts
  by simp

text \<open>
  C2 as stated fails: in that run the late \<open>done()\<close> is not reported as a multiple
  completion; nothing is emitted at all.
\<close>

theorem late_completion_counterexample:
  "timedOut (rn timed_out_state)
   \<and> cb_given timed_out_state
   \<and> emitted timed_out_state = []
   \<and> emitted (step lib0 timed_out_state (UserDone JUndefined)) = []
   \<and> emitted (exec lib0 (run lib0 0 (test_of never_done)) [Tick 60, TimerFires, UserDone JUndefined]) = []"
  by (simp add: timed_out_state_def run_defs fixture_defs)


text \<open>
  C4. When \<open>r.isPending()\<close> holds (\<open>r.pending\<close> is set, or the parent suite or one of
  its ancestors is pending), \<open>r.run(fn)\<close> leaves \<open>r\<close> as it is (no timer is set, no
  field changes), invokes \<open>fn\<close> once with no error, emits and throws nothing, and does
  not call the body, neither at once nor whatever happens later.
\<close>

theorem pending_never_runs:
  "isPending r \<Longrightarrow>
     rn (run l t0 r) = r
     \<and> completions (run l t0 r) = [JUndefined]
     \<and> emitted (run l t0 r) = []
     \<and> rethrown (run l t0 r) = None
     \<and> body_runs (exec l (run l t0 r) evs) = 0
     \<and> completions (exec l (run l t0 r) evs) = [JUndefined]"
  by (simp add: run_pending exec_dead live_def)

text \<open>A test that is not pending itself, in a suite whose parent is pending.\<close>

theorem pending_never_runs_witness:
  "isPending pending_test \<and> \<not> pending pending_test
   \<and> rn (run lib0 0 pending_test) = pending_test
   \<and> completions (run lib0 0 pending_test) = [JUndefined]
   \<and> body_runs (exec lib0 (run lib0 0 pending_test) [Tick 60, TimerFires]) = 0"
proof -
  have p: "isPending pending_test \<and> \<not> pending pending_test"
    by (simp add: isPending_def pending_test_def pending_suite_def fixture_defs)
  then show ?thesis
    using pending_never_runs[of pending_test lib0 0 "[Tick 60, TimerFires]"] by simp
qed

text \<open>
  C5, as the code has it. In the declared-callback mode, when the user invokes the
  completion callback and the Runnable has neither completed nor timed out: with an
  \<open>Error\<close> the Runnable completes with exactly that error; with a truthy value that
  is no \<open>Error\<close> it completes with an error whose message begins \<open>done() invoked with
  non-Error: \<close>; with a falsy value, after the body has returned a promise, it completes
  with the error \<open>Resolution method is overspecified\<close>.
\<close>

theorem explicit_async_completion:
  "\<not> finished s \<and> \<not> timedOut (rn s) \<longrightarrow>
     (is_error e \<longrightarrow> completions (user_callback l e s) = completions s @ [e])
     \<and> (truthy e \<and> \<not> is_error e \<longrightarrow>
          (\<exists>rest. completions (user_callback l e s) =
             completions s @ [JError (new_Error (''done() invoked with non-Error: '' @ rest))]))
     \<and> (\<not> truthy e \<and> result s = Some res \<and> isPromise res \<longrightarrow>
          completions (user_callback l e s) =
            completions s @ [JError (new_Error
              ''Resolution method is overspecified. Specify a callback *or* return a Promise; not both.'')])"
proof (intro impI conjI)
  assume a: "\<not> finished s \<and> \<not> timedOut (rn s)"
  { assume "is_error e"
    then show "completions (user_callback l e s) = completions s @ [e]"
      using a by (simp add: user_callback_def run_done_first is_error_truthy) }
  { assume b: "truthy e \<and> \<not> is_error e"
    show "\<exists>rest. completions (user_callback l e s) =
             completions s @ [JError (new_Error (''done() invoked with non-Error: '' @ rest))]"
    proof (cases "is_plain_object e")
      case True
      then have "completions (user_callback l e s) =
             completions s @ [JError (new_Error (''done() invoked with non-Error: '' @ json_stringify l e))]"
        using a b by (simp add: user_callback_def run_done_first)
      then show ?thesis by blast
    next
      case False
      then have "completions (user_callback l e s) =
             completions s @ [JError (new_Error (''done() invoked with non-Error: '' @ to_text l e))]"
        using a b by (simp add: user_callback_def run_done_first)
      then show ?thesis by blast
    qed }
  { assume c: "\<not> truthy e \<and> result s = Some res \<and> isPromise res"
    then have "\<not> is_error e" using is_error_truthy by blast
    then show "completions (user_callback l e s) =
            completions s @ [JError (new_Error
              ''Resolution method is overspecified. Specify a callback *or* return a Promise; not both.'')]"
      using a c by (simp add: user_callback_def run_done_first isPromise_truthy) }
qed

text \<open>
  A test whose body returns a promise, and whose code calls the completion later: with
  an error the run completes with it, with a string it completes with the non-Error
  error, and with nothing it completes with the overspecified-resolution error.
\<close>

theorem explicit_async_completion_witness:
  "\<not> finished (run lib0 0 (test_of returns_promise))
   \<and> \<not> timedOut (rn (run lib0 0 (test_of returns_promise)))
   \<and> is_error (JError (new_Error ''boom''))
   \<and> completions (user_callback lib0 (JError (new_Error ''boom''))
         (run lib0 0 (test_of returns_promise))) = [JError (new_Error ''boom'')]
   \<and> truthy (JStr ''failed'') \<and> \<not> is_error (JStr ''failed'')
   \<and> completions (user_callback lib0 (JStr ''failed'') (run lib0 0 (test_of returns_promise))) =
        [JError (new_Error ''done() invoked with non-Error: value'')]
   \<and> \<not> truthy JUndefined \<and> result (run lib0 0 (test_of returns_promise)) = Some (JThenable 0)
   \<and> isPromise (JThenable 0)
   \<and> completions (user_callback lib0 JUndefined (run lib0 0 (test_of returns_promise))) =
        [JError (new_Error
          ''Resolution method is overspecified. Specify a callback *or* return a Promise; not both.'')]"
proof -
  have t: "to_text lib0 (JStr ''failed'') = ''value''"
    by (simp add: lib0_def)
  have n: "completions (user_callback lib0 (JStr ''failed'') (run lib0 0 (test_of returns_promise))) =
        [JError (new_Error ''done() invoked with non-Error: value'')]"
    using returns_promise_facts t by (simp add: user_callback_def run_done_first)
  show ?thesis
    using returns_promise_facts n
      explicit_async_completion[of "run lib0 0 (test_of returns_promise)" JUndefined lib0 "JThenable 0"]
      explicit_async_completion[of "run lib0 0 (test_of returns_promise)"
        "JError (new_Error ''boom'')" lib0 "JThenable 0"]
    by simp
qed

text \<open>
  C5 as stated fails: a body that calls \<open>done()\<close> while it runs and then returns a
  promise has both returned a thenable and invoked the completion with no error value;
  when \<open>done()\<close> is called \<open>result\<close> is not yet assigned, and the run completes with
  no error.
\<close>

theorem overspecified_counterexample:
  "f_actions done_and_promise = [CallDone JUndefined]
   \<and> f_outcome done_and_promise = Returns (JThenable 0)
   \<and> isPromise (JThenable 0) \<and> \<not> truthy JUndefined
   \<and> result (run lib0 0 (test_of done_and_promise)) = Some (JThenable 0)
   \<and> completions (run lib0 0 (test_of done_and_promise)) = [JUndefined]"
  by (simp add: run_defs fixture_defs)



text \<open>
  C7, as the code has it. After \<open>h.error(e)\<close> the slot holds \<open>e\<close>; \<open>h.error()\<close>
  then returns \<open>e\<close> and leaves \<open>null\<close> in the slot, so that the next \<open>h.error()\<close>
  returns \<open>null\<close>; \<open>reset()\<close> removes the slot. A slot that holds an error is emptied
  by \<open>h.error()\<close>, by \<open>reset()\<close>, and by \<open>h.error(v)\<close> with \<open>v\<close> itself \<open>null\<close> or
  \<open>undefined\<close>, and by nothing else.
\<close>

theorem hook_error_slot:
  "p_error (snd (Hook_error (Some e) h)) = e
   \<and> fst (Hook_error None (snd (Hook_error (Some e) h))) = e
   \<and> p_error (snd (Hook_error None (snd (Hook_error (Some e) h)))) = JNull
   \<and> fst (Hook_error None (snd (Hook_error None (snd (Hook_error (Some e) h))))) = JNull
   \<and> p_error (Hook_reset h) = JUndefined
   \<and> (\<not> slot_empty (p_error h) \<and> slot_empty (p_error (hook_apply op h)) \<longrightarrow>
        op = OpError None \<or> op = OpReset \<or> (\<exists>v. op = OpError (Some v) \<and> slot_empty v))"
proof -
  have last: "\<not> slot_empty (p_error h) \<and> slot_empty (p_error (hook_apply op h)) \<longrightarrow>
        op = OpError None \<or> op = OpReset \<or> (\<exists>v. op = OpError (Some v) \<and> slot_empty v)"
  proof (cases op)
    case (OpError arg)
    then show ?thesis by (cases arg) (simp_all add: Hook_error_def)
  next
    case OpReset
    then show ?thesis by simp
  qed
  show ?thesis using last by (simp add: Hook_error_def Hook_reset_def)
qed

text \<open>A hook that retains an error: reading it empties the slot.\<close>

theorem hook_error_slot_witness:
  "\<not> slot_empty (p_error failing_hook)
   \<and> slot_empty (p_error (hook_apply (OpError None) failing_hook))
   \<and> fst (Hook_error None failing_hook) = JError (new_Error ''boom'')
   \<and> fst (Hook_error None (snd (Hook_error None
         (snd (Hook_error (Some (JError (new_Error ''boom''))) failing_hook))))) = JNull"
  using hook_error_slot[of "JError (new_Error ''boom'')" failing_hook "OpError None"]
    failing_hook_slot
  by (simp add: slot_empty_def Hook_error_def)

text \<open>
  C7 as stated fails: \<open>h.error(null)\<close> empties the slot of that hook, and is neither
  a read nor \<open>reset()\<close>.
\<close>

theorem hook_error_slot_counterexample:
  "\<not> slot_empty (p_error failing_hook)
   \<and> slot_empty (p_error (hook_apply (OpError (Some JNull)) failing_hook))
   \<and> OpError (Some JNull) \<noteq> OpError None \<and> OpError (Some JNull) \<noteq> OpReset"
  by (simp add: failing_hook_slot slot_empty_def Hook_error_def)

text \<open>
  C8, as the code has it. Declaring a suite with no body function and no pending flag
  throws at once the missing-argument error whose message names the suite's full title.
  With the pending flag set and no body function, the suite is returned, pending, unless
  pending suites are forbidden (\<open>forbidPending\<close>) and the suite would be tested: then
  the error \<open>Pending test forbidden\<close> is thrown.
\<close>

theorem suite_without_body:
  \<open>(o_fn opts = SFnUndefined \<and> \<not> flag (o_pending opts) \<longrightarrow>
      fst (create m new_id opts d) =
        Inl (JError (createMissingArgumentError
          (''Suite "'' @ suite_fullTitle (declared new_id opts d) @
           ''" was defined but no callback was supplied. Supply a callback or explicitly skip the suite.'')
          ''callback'' ''function'')))
   \<and> (o_fn opts = SFnUndefined \<and> flag (o_pending opts)
        \<and> \<not> (forbidPending m \<and> shouldBeTested m (declared new_id opts d)) \<longrightarrow>
      fst (create m new_id opts d) = Inr (declared new_id opts d)
      \<and> s_pending (declared new_id opts d))
   \<and> (o_fn opts = SFnUndefined \<and> flag (o_pending opts)
        \<and> forbidPending m \<and> shouldBeTested m (declared new_id opts d) \<longrightarrow>
      fst (create m new_id opts d) = Inl (JError (createUnsupportedError ''Pending test forbidden'')))\<close>
  by (auto simp: create_def declared_def Suite_create_def Let_def)

text \<open>
  A suite titled \<open>Array\<close> declared under the root with a title only, and the same
  suite declared with \<open>skip\<close>.
\<close>

theorem suite_without_body_witness:
  \<open>o_fn no_body = SFnUndefined \<and> \<not> flag (o_pending no_body)
   \<and> fst (create mocha0 ''s1'' no_body dsl0) =
        Inl (JError (createMissingArgumentError
          ''Suite "Array" was defined but no callback was supplied. Supply a callback or explicitly skip the suite.''
          ''callback'' ''function''))
   \<and> flag (o_pending (no_body\<lparr>o_pending := Some True\<rparr>)) \<and> \<not> forbidPending mocha0
   \<and> fst (skip mocha0 ''s1'' no_body dsl0) = Inr (declared ''s1'' (no_body\<lparr>o_pending := Some True\<rparr>) dsl0)
   \<and> s_pending (declared ''s1'' (no_body\<lparr>o_pending := Some True\<rparr>) dsl0)\<close>
  using suite_without_body[of no_body mocha0 "''s1''" dsl0]
    suite_without_body[of "no_body\<lparr>o_pending := Some True\<rparr>" mocha0 "''s1''" dsl0]
    no_body_facts
  by (simp add: skip_def)

text \<open>
  C8 as stated fails: with \<open>forbidPending\<close> set, declaring that suite pending and
  without a body throws.
\<close>

theorem pending_suite_counterexample:
  "o_fn (no_body\<lparr>o_pending := Some True\<rparr>) = SFnUndefined
   \<and> flag (o_pending (no_body\<lparr>o_pending := Some True\<rparr>))
   \<and> fst (create (mocha0\<lparr>forbidPending := True\<rparr>) ''s1'' (no_body\<lparr>o_pending := Some True\<rparr>) dsl0) =
        Inl (JError (createUnsupportedError ''Pending test forbidden''))"
  by (simp add: create_def no_body_def mocha0_def dsl0_def flag_def shouldBeTested_def Suite_create_def
      Let_def)



text \<open>
  C10. When \<open>done\<close> is raised with no error on a run that has neither completed nor
  timed out, and the time since \<open>run\<close> started is above a threshold that is above 0,
  the completion is invoked with the timeout error: its code is \<open>ERR_MOCHA_TIMEOUT\<close> and
  its message holds the threshold and, when the file is set, the file. The timer has not
  fired: \<open>timedOut\<close> stays false.
\<close>

theorem completion_past_threshold_is_timeout:
  \<open>\<not> finished s \<and> \<not> timedOut (rn s) \<and> \<not> truthy e
     \<and> js_gt (Fin (of_int (now s - start s))) (p_timeout (rn s))
     \<and> js_gt (p_timeout (rn s)) (Fin 0) \<longrightarrow>
     completions (run_done l e s) =
       completions s @ [JError (timeoutError l (rn s) (p_timeout (rn s)))]
     \<and> e_code (timeoutError l (rn s) (p_timeout (rn s))) = Some ''ERR_MOCHA_TIMEOUT''
     \<and> e_message (timeoutError l (rn s) (p_timeout (rn s))) =
         ''Timeout of '' @ num_text l (p_timeout (rn s)) @
         ''ms exceeded. For async tests and hooks, ensure "done()" is called; if returning a Promise, ensure it resolves.'' @
         (if file_set (rfile (rn s)) then '' ('' @ file_text (rfile (rn s)) @ '')'' else [])
     \<and> \<not> timedOut (rn (run_done l e s))
     \<and> duration (rn (run_done l e s)) = Some (now s - start s)\<close>
proof (intro impI)
  assume a: "\<not> finished s \<and> \<not> timedOut (rn s) \<and> \<not> truthy e
     \<and> js_gt (Fin (of_int (now s - start s))) (p_timeout (rn s))
     \<and> js_gt (p_timeout (rn s)) (Fin 0)"
  have f: "timeoutError l ((clearTimeout (rn s))\<lparr>duration := Some (now s - start s)\<rparr>) (p_timeout (rn s))
        = timeoutError l (rn s) (p_timeout (rn s))"
    by (rule timeoutError_rfile) (simp add: clearTimeout_def)
  have c: "completions (run_done l e s) =
       completions s @ [JError (timeoutError l (rn s) (p_timeout (rn s)))]"
    using a f by (simp add: run_done_def Let_def)
  have t: "\<not> timedOut (rn (run_done l e s)) \<and> duration (rn (run_done l e s)) = Some (now s - start s)"
    using a by (simp add: run_done_def Let_def clearTimeout_def)
  have m: "e_code (timeoutError l (rn s) (p_timeout (rn s))) = Some ''ERR_MOCHA_TIMEOUT''"
    by (simp add: timeoutError_def createTimeoutError_def Let_def)
  have n: \<open>e_message (timeoutError l (rn s) (p_timeout (rn s))) =
         ''Timeout of '' @ num_text l (p_timeout (rn s)) @
         ''ms exceeded. For async tests and hooks, ensure "done()" is called; if returning a Promise, ensure it resolves.'' @
         (if file_set (rfile (rn s)) then '' ('' @ file_text (rfile (rn s)) @ '')'' else [])\<close>
    by (simp add: timeoutError_def createTimeoutError_def Let_def)
  show \<open>completions (run_done l e s) =
       completions s @ [JError (timeoutError l (rn s) (p_timeout (rn s)))]
     \<and> e_code (timeoutError l (rn s) (p_timeout (rn s))) = Some ''ERR_MOCHA_TIMEOUT''
     \<and> e_message (timeoutError l (rn s) (p_timeout (rn s))) =
         ''Timeout of '' @ num_text l (p_timeout (rn s)) @
         ''ms exceeded. For async tests and hooks, ensure "done()" is called; if returning a Promise, ensure it resolves.'' @
         (if file_set (rfile (rn s)) then '' ('' @ file_text (rfile (rn s)) @ '')'' else [])
     \<and> \<not> timedOut (rn (run_done l e s))
     \<and> duration (rn (run_done l e s)) = Some (now s - start s)\<close>
    using c t m n by blast
qed

text \<open>
  A synchronous test with a timeout of 50 ms whose body takes 100 ms: no timer was set,
  and the run completes with the timeout error.
\<close>

theorem completion_past_threshold_is_timeout_witness:
  "\<not> finished slow_state \<and> \<not> timedOut (rn slow_state) \<and> \<not> truthy JUndefined
     \<and> js_gt (Fin (of_int (now slow_state - start slow_state))) (p_timeout (rn slow_state))
     \<and> js_gt (p_timeout (rn slow_state)) (Fin 0)
     \<and> timer (rn slow_state) = None
     \<and> run lib0 0 (test_of slow_sync) = run_done lib0 JUndefined slow_state
     \<and> completions (run lib0 0 (test_of slow_sync)) =
         [JError (timeoutError lib0 (rn slow_state) (Fin 50))]
     \<and> e_code (timeoutError lib0 (rn slow_state) (Fin 50)) = Some ''ERR_MOCHA_TIMEOUT''"
proof -
  have p: "p_timeout (rn slow_state) = Fin 50 \<and> completions slow_state = []"
    by (simp add: slow_state_def fixture_defs)
  show ?thesis
    using completion_past_threshold_is_timeout[of slow_state JUndefined lib0] slow_state_facts p
    by simp
qed

end
